theory Spec2Isabelle
  imports Complex_Main "HOL-Library.Multiset" "HOL-Library.Sublist"
begin

section \<open>Data model\<close>

text \<open>
  JavaScript numbers are modelled as integers: array values come from \<open>parseInt\<close> or
  \<open>Math.floor\<close>, edge weights from \<open>parseInt\<close> or \<open>Math.floor\<close>. The one non-finite
  number the graph code uses, \<open>Infinity\<close>, is a constructor of its own.
\<close>

datatype num = Fin int | Infinity

text \<open>\<open>interface ArrayElement\<close> of SortingVisualizer.tsx; the field \<open>value\<close> is named \<open>el_value\<close>.\<close>

record ArrayElement =
  el_value :: int
  isCompared :: bool
  isSwapped :: bool
  isSorted :: bool

text \<open>
  \<open>interface Node\<close> and \<open>interface Edge\<close> of the graph visualizer; \<open>id\<close>, \<open>from\<close>, \<open>to\<close> are
  named \<open>nid\<close>, \<open>efrom\<close>, \<open>eto\<close>, and the other fields carry the prefix \<open>n\<close> or \<open>e\<close>
  (\<open>nvisited\<close>, \<open>eweight\<close>, ...). An optional field is an \<open>option\<close>.
\<close>

record Node =
  nid :: string
  nx :: real
  ny :: real
  nvisited :: bool
  ncurrent :: bool
  ninQueue :: bool
  ndistance :: "num option"

record Edge =
  efrom :: string
  eto :: string
  eweight :: "int option"
  ehighlighted :: bool

section \<open>Stopping a run\<close>

text \<open>
  \<open>GraphView\<close> below is the graph component's React state as far as the model needs it:
  the graph model (an object of objects, see the next section), the selected start node,
  the node and edge collections, the traversal order, and the run flag with its ref.
\<close>

text \<open>
  The part of the sorting component's state that \<open>stopSorting\<close> touches: the React state
  \<open>array\<close> and \<open>isRunning\<close>, the ref \<open>isRunningRef\<close> and the list of pending timers
  (their number is all the model keeps).
\<close>

record SortingView =
  array :: "ArrayElement list"
  isRunning :: bool
  isRunningRef :: bool
  animationRef :: nat

definition stopSorting :: "SortingView \<Rightarrow> SortingView" where
  "stopSorting v =
     v\<lparr>animationRef := 0,
       isRunningRef := False,
       isRunning := False,
       array := map (\<lambda>el. el\<lparr>isCompared := False, isSwapped := False\<rparr>) (array v)\<rparr>"

datatype Algorithm = BFS | DFS | Dijkstra | BellmanFord

record GraphView =
  graph :: "(string \<times> (string \<times> int) list) list"
  startNode :: string
  nodes :: "Node list"
  edges :: "Edge list"
  traversalOrder :: "string list"
  gIsRunning :: bool
  gIsRunningRef :: bool
  gAnimationRef :: nat

definition stopVisualization :: "GraphView \<Rightarrow> GraphView" where
  "stopVisualization v =
     v\<lparr>gAnimationRef := 0,
       gIsRunning := False,
       gIsRunningRef := False,
       nodes := map (\<lambda>node. node\<lparr>nvisited := False, ncurrent := False, ninQueue := False\<rparr>) (nodes v),
       edges := map (\<lambda>edge. edge\<lparr>ehighlighted := False\<rparr>) (edges v),
       traversalOrder := []\<rparr>"

section \<open>Strings and objects of the graph visualizer\<close>

text \<open>
  A string is a list of code units, and a \<open>char\<close> is a code unit below 256: the model
  covers the strings of Latin-1 characters, and on them it is exact. \<open>isWS\<close> holds of the
  white space and line terminators of JavaScript below 256 (TAB, LF, VT, FF, CR, SP and the
  no-break space U+00A0), which \<open>String.prototype.trim\<close> removes at both ends and
  \<open>parseInt\<close> skips; \<open>split c\<close> is \<open>String.prototype.split\<close> with a one-character
  separator, which always returns at least one part.
\<close>

definition isWS :: "char \<Rightarrow> bool" where
  "isWS c = (c \<in> set [CHR 0x09, CHR 0x0A, CHR 0x0B, CHR 0x0C, CHR 0x0D, CHR '' '', CHR 0xA0])"

definition trim :: "string \<Rightarrow> string" where
  "trim s = rev (dropWhile isWS (rev (dropWhile isWS s)))"

fun split :: "char \<Rightarrow> string \<Rightarrow> string list" where
  "split c [] = [[]]"
| "split c (a # as) =
     (if a = c then [] # split c as
      else (case split c as of p # ps \<Rightarrow> (a # p) # ps | [] \<Rightarrow> [[a]]))"

definition charCode :: "char \<Rightarrow> nat" where
  "charCode c = of_char c"

definition isDigit :: "char \<Rightarrow> bool" where
  "isDigit c = (48 \<le> charCode c \<and> charCode c \<le> 57)"

definition isWord :: "char \<Rightarrow> bool" where
  "isWord c = (isDigit c \<or> (97 \<le> charCode c \<and> charCode c \<le> 122)
               \<or> (65 \<le> charCode c \<and> charCode c \<le> 90) \<or> c = CHR ''_'')"

definition digitVal :: "char \<Rightarrow> nat" where
  "digitVal c = charCode c - 48"

definition decimal :: "string \<Rightarrow> nat" where
  "decimal ds = foldl (\<lambda>n c. 10 * n + digitVal c) 0 ds"

definition isHex :: "char \<Rightarrow> bool" where
  "isHex c = (isDigit c \<or> (97 \<le> charCode c \<and> charCode c \<le> 102)
              \<or> (65 \<le> charCode c \<and> charCode c \<le> 70))"

definition hexVal :: "char \<Rightarrow> nat" where
  "hexVal c = (if isDigit c then charCode c - 48
               else if 97 \<le> charCode c then charCode c - 87 else charCode c - 55)"

definition hexadecimal :: "string \<Rightarrow> nat" where
  "hexadecimal ds = foldl (\<lambda>n c. 16 * n + hexVal c) 0 ds"

text \<open>
  \<open>parseInt(s)\<close> without a radix: leading white space, an optional sign, then either
  \<open>0x\<close>/\<open>0X\<close> and hexadecimal digits or decimal digits; what follows the digits is
  ignored; \<open>None\<close> is \<open>NaN\<close>. The result is the integer the digits denote: the code's
  number is that integer rounded to a double, the same below \<open>2^53\<close>. The rounding keeps
  the sign and keeps zero, so the test \<open>weight > 0\<close> of the matrix parser and every
  failure of the parsers are the same for both.
\<close>

definition parseInt :: "string \<Rightarrow> int option" where
  "parseInt s =
     (let s1 = dropWhile isWS s;
          neg = (s1 \<noteq> [] \<and> hd s1 = CHR ''-'');
          s2 = (if s1 \<noteq> [] \<and> (hd s1 = CHR ''-'' \<or> hd s1 = CHR ''+'') then tl s1 else s1);
          sgn = (if neg then - 1 else 1)
      in if take 2 s2 = ''0x'' \<or> take 2 s2 = ''0X''
         then (let ds = takeWhile isHex (drop 2 s2)
               in if ds = [] then None else Some (sgn * int (hexadecimal ds)))
         else (let ds = takeWhile isDigit s2
               in if ds = [] then None else Some (sgn * int (decimal ds))))"

text \<open>
  \<open>trimmed.match(/(\w+)\((\d+)\)/)\<close>: the leftmost match of a run of word characters,
  an opening parenthesis, a run of digits and a closing parenthesis. Both runs are
  greedy, and a shorter run cannot be followed by the parenthesis the pattern asks for,
  so matching at a position takes the longest runs. The result holds the two groups.
\<close>

definition matchHere :: "string \<Rightarrow> (string \<times> string) option" where
  "matchHere s =
     (let w = takeWhile isWord s; r = dropWhile isWord s
      in if w = [] \<or> r = [] \<or> hd r \<noteq> CHR ''('' then None
         else (let d = takeWhile isDigit (tl r); r' = dropWhile isDigit (tl r)
               in if d = [] \<or> r' = [] \<or> hd r' \<noteq> CHR '')'' then None else Some (w, d)))"

fun regexMatch :: "string \<Rightarrow> (string \<times> string) option" where
  "regexMatch [] = None"
| "regexMatch (c # cs) =
     (case matchHere (c # cs) of Some m \<Rightarrow> Some m | None \<Rightarrow> regexMatch cs)"

text \<open>
  The own properties of a JavaScript object with string keys are an association list in
  insertion order: assigning to a present key keeps its place, assigning to a new key
  appends (\<open>objSet\<close>; the key \<open>__proto__\<close>, which is no own property, is handled where the
  parsers assign).
  \<open>Object.keys\<close> lists the keys that are array indices (canonical decimal numerals below
  \<open>2^32 - 1\<close>) first, in ascending numeric order, and the other keys after them in
  insertion order.
\<close>

type_synonym 'v jsobj = "(string \<times> 'v) list"

fun objSet :: "'v jsobj \<Rightarrow> string \<Rightarrow> 'v \<Rightarrow> 'v jsobj" where
  "objSet [] k v = [(k, v)]"
| "objSet ((k', v') # ps) k v = (if k' = k then (k, v) # ps else (k', v') # objSet ps k v)"

definition objGet :: "'v jsobj \<Rightarrow> string \<Rightarrow> 'v option" where
  "objGet ob k = map_of ob k"

definition isArrayIndex :: "string \<Rightarrow> bool" where
  "isArrayIndex k = (k \<noteq> [] \<and> list_all isDigit k \<and> (if hd k = CHR ''0'' then k = ''0'' else True)
                     \<and> int (decimal k) < 4294967295)"

definition Object_keys :: "'v jsobj \<Rightarrow> string list" where
  "Object_keys ob =
     sort_key decimal (filter isArrayIndex (map fst ob))
     @ filter (\<lambda>k. \<not> isArrayIndex k) (map fst ob)"

type_synonym Graph = "(int jsobj) jsobj"

section \<open>Parsing and generating a graph\<close>

datatype error = InvalidFormat | TypeError

text \<open>
  The graph is created as \<open>{}\<close>, so a property that is not its own is looked up on
  \<open>Object.prototype\<close>. \<open>proto\<close> is the state of that object as the parsers see it: its data
  properties (\<open>table\<close>), each a built-in function (named by its property) or a number
  that an earlier assignment stored there, and the names of the properties that
  assignments have stored on the function \<open>Object\<close>, which is the inherited
  \<open>constructor\<close> (\<open>objectStatics\<close>). \<open>pristine\<close> is its state in a fresh page. The accessor
  \<open>__proto__\<close> is not in the table: reading it gives the prototype of the object, and
  assigning a number to it does nothing. The matrix parser can replace the graph's
  prototype (\<open>graph['__proto__'] = {}\<close>); \<open>replaced\<close> holds the properties of that new
  prototype. The source is a module, so its code is strict: an assignment that fails throws
  a TypeError.
\<close>

datatype inherited = BuiltinFunction string | Number int | ThePrototype | NewPrototype

record proto =
  table :: "inherited jsobj"
  objectStatics :: "string list"

definition pristine :: proto where
  "pristine =
     \<lparr>table = map (\<lambda>n. (n, BuiltinFunction n))
        [''constructor'', ''__defineGetter__'', ''__defineSetter__'', ''hasOwnProperty'',
         ''__lookupGetter__'', ''__lookupSetter__'', ''isPrototypeOf'', ''propertyIsEnumerable'',
         ''toString'', ''valueOf'', ''toLocaleString''],
      objectStatics = []\<rparr>"

record GraphObject =
  own :: Graph
  replaced :: "int jsobj option"

datatype target = Own "int jsobj" | Inherited inherited | Undefined

text \<open>\<open>graph[k]\<close>: the own property, else what the prototype chain gives.\<close>

definition getProp :: "proto \<Rightarrow> GraphObject \<Rightarrow> string \<Rightarrow> target" where
  "getProp op go k =
     (case objGet (own go) k of
        Some nb \<Rightarrow> Own nb
      | None \<Rightarrow>
          if k = ''__proto__''
          then (case replaced go of None \<Rightarrow> Inherited ThePrototype
                                   | Some p \<Rightarrow> Inherited NewPrototype)
          else (case (case replaced go of None \<Rightarrow> None | Some p \<Rightarrow> objGet p k) of
                  Some n \<Rightarrow> Inherited (Number n)
                | None \<Rightarrow> (case objGet (table op) k of Some v \<Rightarrow> Inherited v
                                                      | None \<Rightarrow> Undefined)))"

definition truthy :: "target \<Rightarrow> bool" where
  "truthy t = (case t of Own nb \<Rightarrow> True | Inherited (Number n) \<Rightarrow> n \<noteq> 0
                       | Inherited v \<Rightarrow> True | Undefined \<Rightarrow> False)"

text \<open>
  The properties of a built-in function that an assignment cannot write: \<open>name\<close> and
  \<open>length\<close> are read-only, \<open>caller\<close> and \<open>arguments\<close> are accessors that throw, and
  \<open>Object.prototype\<close> (the property \<open>prototype\<close> of \<open>constructor\<close>) is read-only.
\<close>

definition readOnlyOnFunction :: "string \<Rightarrow> string \<Rightarrow> bool" where
  "readOnlyOnFunction f t =
     (t \<in> set [''name'', ''length'', ''caller'', ''arguments'']
      \<or> (f = ''constructor'' \<and> t = ''prototype''))"

text \<open>
  \<open>graph[node][t] = v\<close> for a number \<open>v\<close>. On an own object it stores the key, unless the
  key is \<open>__proto__\<close>. On \<open>Object.prototype\<close> or on the replaced prototype it stores the key
  there. On a built-in function it throws for the properties above and otherwise stores a
  property of the function; for the function \<open>Object\<close> the name is recorded, as
  \<open>generateGraph\<close> calls \<open>Object.keys\<close> and \<open>Object.entries\<close>. On a number it throws,
  unless the key is \<open>__proto__\<close>. On \<open>undefined\<close> it throws.
\<close>

definition setNeighbor ::
  "string \<Rightarrow> string \<Rightarrow> int \<Rightarrow> proto \<times> GraphObject \<Rightarrow> proto \<times> (error + GraphObject)" where
  "setNeighbor node t v st =
     (case st of (op, go) \<Rightarrow>
        (case getProp op go node of
           Own nb \<Rightarrow>
             (op, Inr (if t = ''__proto__'' then go
                       else go\<lparr>own := objSet (own go) node (objSet nb t v)\<rparr>))
         | Inherited ThePrototype \<Rightarrow>
             (if t = ''__proto__'' then op else op\<lparr>table := objSet (table op) t (Number v)\<rparr>,
              Inr go)
         | Inherited NewPrototype \<Rightarrow>
             (op, Inr (if t = ''__proto__'' then go
                       else go\<lparr>replaced := Some (objSet (case replaced go of Some p \<Rightarrow> p | None \<Rightarrow> [])
                                                           t v)\<rparr>))
         | Inherited (BuiltinFunction f) \<Rightarrow>
             (if readOnlyOnFunction f t then (op, Inl TypeError)
              else (if f = ''constructor'' \<and> t \<noteq> ''__proto__''
                    then op\<lparr>objectStatics := t # objectStatics op\<rparr> else op, Inr go))
         | Inherited (Number n) \<Rightarrow>
             (op, if t = ''__proto__'' then Inr go else Inl TypeError)
         | Undefined \<Rightarrow> (op, Inl TypeError)))"

text \<open>
  The body of \<open>neighborList.forEach\<close> in \<open>parseAdjacencyList\<close>. The second group of a match
  is a non-empty run of digits, and \<open>parseInt\<close> of it is its decimal value.
\<close>

definition addNeighbor ::
  "bool \<Rightarrow> string \<Rightarrow> string \<Rightarrow> proto \<times> GraphObject \<Rightarrow> proto \<times> (error + GraphObject)" where
  "addNeighbor isWeighted node neighbor st =
     (let trimmed = trim neighbor
      in if isWeighted \<and> CHR ''('' \<in> set trimmed
         then (case regexMatch trimmed of
                 Some (m1, m2) \<Rightarrow> setNeighbor node m1 (int (decimal m2)) st
               | None \<Rightarrow> (fst st, Inr (snd st)))
         else setNeighbor node trimmed 1 st)"

fun addNeighbors ::
  "bool \<Rightarrow> string \<Rightarrow> string list \<Rightarrow> proto \<times> GraphObject \<Rightarrow> proto \<times> (error + GraphObject)" where
  "addNeighbors isWeighted node [] st = (fst st, Inr (snd st))"
| "addNeighbors isWeighted node (n # ns) st =
     (case addNeighbor isWeighted node n st of
        (op, Inl e) \<Rightarrow> (op, Inl e)
      | (op, Inr go) \<Rightarrow> addNeighbors isWeighted node ns (op, go))"

text \<open>
  The body of \<open>lines.forEach\<close>: \<open>throw new Error('Invalid format')\<close> is \<open>Inl InvalidFormat\<close>.
  \<open>graph[node] = {}\<close> runs only when \<open>graph[node]\<close> is falsy, which \<open>__proto__\<close> never is.
\<close>

definition parseLine ::
  "bool \<Rightarrow> proto \<times> GraphObject \<Rightarrow> string \<Rightarrow> proto \<times> (error + GraphObject)" where
  "parseLine isWeighted st line =
     (let parts = split CHR '':'' (trim line)
      in if length parts \<noteq> 2 then (fst st, Inl InvalidFormat)
         else (let node = trim (parts ! 0);
                   neighbors = trim (parts ! 1);
                   go1 = (if \<not> truthy (getProp (fst st) (snd st) node)
                          then (snd st)\<lparr>own := objSet (own (snd st)) node []\<rparr>
                          else snd st)
               in if neighbors \<noteq> []
                  then addNeighbors isWeighted node (split CHR '','' neighbors) (fst st, go1)
                  else (fst st, Inr go1)))"

fun parseLines ::
  "bool \<Rightarrow> proto \<times> GraphObject \<Rightarrow> string list \<Rightarrow> proto \<times> (error + GraphObject)" where
  "parseLines isWeighted st [] = (fst st, Inr (snd st))"
| "parseLines isWeighted st (l # ls) =
     (case parseLine isWeighted st l of
        (op, Inl e) \<Rightarrow> (op, Inl e)
      | (op, Inr go) \<Rightarrow> parseLines isWeighted (op, go) ls)"

text \<open>
  \<open>parseAdjacencyListFrom op\<close> is the parser started with \<open>Object.prototype\<close> in the state
  \<open>op\<close>; it returns the state it leaves, also when it throws. \<open>parseAdjacencyList\<close> is the
  parser in a fresh page, and its result the own properties of the graph.
\<close>

definition parseAdjacencyListFrom ::
  "proto \<Rightarrow> bool \<Rightarrow> string \<Rightarrow> proto \<times> (error + GraphObject)" where
  "parseAdjacencyListFrom op isWeighted input =
     parseLines isWeighted (op, \<lparr>own = [], replaced = None\<rparr>) (split CHR 0x0A (trim input))"

definition graphOf :: "error + GraphObject \<Rightarrow> error + Graph" where
  "graphOf r = (case r of Inl e \<Rightarrow> Inl e | Inr go \<Rightarrow> Inr (own go))"

definition parseAdjacencyList :: "bool \<Rightarrow> string \<Rightarrow> error + Graph" where
  "parseAdjacencyList isWeighted input =
     graphOf (snd (parseAdjacencyListFrom pristine isWeighted input))"

text \<open>
  \<open>parseAdjacencyMatrix\<close>. \<open>graph[label] = {}\<close> stores an own key, except for the label
  \<open>__proto__\<close>, which replaces the graph's prototype by the new object. Reading
  \<open>nodeLabels[j]\<close> past the end gives \<open>undefined\<close>, which as a property key is the string
  \<open>undefined\<close>. A \<open>NaN\<close> cell (\<open>None\<close>) is not greater than 0.
\<close>

definition keyAt :: "string list \<Rightarrow> nat \<Rightarrow> string" where
  "keyAt labels j = (if j < length labels then labels ! j else ''undefined'')"

definition initLabel :: "GraphObject \<Rightarrow> string \<Rightarrow> GraphObject" where
  "initLabel go label =
     (if label = ''__proto__'' then go\<lparr>replaced := Some []\<rparr>
      else go\<lparr>own := objSet (own go) label []\<rparr>)"

fun rowCells ::
  "bool \<Rightarrow> string list \<Rightarrow> string \<Rightarrow> proto \<times> GraphObject \<Rightarrow> nat \<Rightarrow> int option list
   \<Rightarrow> proto \<times> (error + GraphObject)" where
  "rowCells isWeighted labels fromNode st j [] = (fst st, Inr (snd st))"
| "rowCells isWeighted labels fromNode st j (c # cs) =
     (case c of
        None \<Rightarrow> rowCells isWeighted labels fromNode st (Suc j) cs
      | Some w \<Rightarrow>
          if w > 0
          then (case setNeighbor fromNode (keyAt labels j) (if isWeighted then w else 1) st of
                  (op, Inl e) \<Rightarrow> (op, Inl e)
                | (op, Inr go) \<Rightarrow> rowCells isWeighted labels fromNode (op, go) (Suc j) cs)
          else rowCells isWeighted labels fromNode st (Suc j) cs)"

definition parseRow :: "string \<Rightarrow> int option list" where
  "parseRow l = map (\<lambda>s. parseInt (trim s)) (split CHR '','' l)"

fun matrixRows ::
  "bool \<Rightarrow> string list \<Rightarrow> proto \<times> GraphObject \<Rightarrow> nat \<Rightarrow> string list
   \<Rightarrow> proto \<times> (error + GraphObject)" where
  "matrixRows isWeighted labels st i [] = (fst st, Inr (snd st))"
| "matrixRows isWeighted labels st i (l # ls) =
     (case rowCells isWeighted labels (keyAt labels (i - 1)) st 0 (parseRow l) of
        (op, Inl e) \<Rightarrow> (op, Inl e)
      | (op, Inr go) \<Rightarrow> matrixRows isWeighted labels (op, go) (Suc i) ls)"

definition nodeLabelsOf :: "string \<Rightarrow> string list" where
  "nodeLabelsOf input = map trim (split CHR '','' (hd (split CHR 0x0A (trim input))))"

definition dataRowsOf :: "string \<Rightarrow> string list" where
  "dataRowsOf input = tl (split CHR 0x0A (trim input))"

definition parseAdjacencyMatrixFrom ::
  "proto \<Rightarrow> bool \<Rightarrow> string \<Rightarrow> proto \<times> (error + GraphObject)" where
  "parseAdjacencyMatrixFrom op isWeighted input =
     (let nodeLabels = nodeLabelsOf input;
          go = foldl initLabel \<lparr>own = [], replaced = None\<rparr> nodeLabels
      in matrixRows isWeighted nodeLabels (op, go) 1 (dataRowsOf input))"

definition parseAdjacencyMatrix :: "bool \<Rightarrow> string \<Rightarrow> error + Graph" where
  "parseAdjacencyMatrix isWeighted input =
     graphOf (snd (parseAdjacencyMatrixFrom pristine isWeighted input))"

text \<open>
  \<open>createVisualization\<close> lays the nodes out on a circle and lists the edges in
  \<open>Object.entries\<close> order, which is the order of \<open>Object.keys\<close>.
\<close>

definition Object_entries :: "'v jsobj \<Rightarrow> (string \<times> 'v) list" where
  "Object_entries ob = map (\<lambda>k. (k, the (objGet ob k))) (Object_keys ob)"

definition createNodes :: "Algorithm \<Rightarrow> string \<Rightarrow> Graph \<Rightarrow> Node list" where
  "createNodes algorithm start g =
     (let nodeIds = Object_keys g
      in map (\<lambda>index.
            \<lparr>nid = nodeIds ! index,
             nx = 400 + 200 * cos (real index * 2 * pi / real (length nodeIds)),
             ny = 300 + 200 * sin (real index * 2 * pi / real (length nodeIds)),
             nvisited = False, ncurrent = False, ninQueue = False,
             ndistance = (if algorithm = Dijkstra \<or> algorithm = BellmanFord
                         then Some (if nodeIds ! index = start then Fin 0 else Infinity)
                         else None)\<rparr>)
          [0 ..< length nodeIds])"

definition createEdges :: "bool \<Rightarrow> Graph \<Rightarrow> Edge list" where
  "createEdges isWeighted g =
     concat (map (\<lambda>(f, neighbors).
                map (\<lambda>(t, w). \<lparr>efrom = f, eto = t,
                                eweight = (if isWeighted then Some w else None),
                                ehighlighted = False\<rparr>)
                    (Object_entries neighbors))
             (Object_entries g))"

datatype InputMode = AdjacencyList | AdjacencyMatrix | Random

text \<open>
  \<open>generateGraph\<close>: the parse runs inside \<open>try\<close>, and the state is written only after it
  returned; the \<open>catch\<close> branch shows a toast and writes nothing. The graph of the random
  mode comes from \<open>Math.random\<close> and is a parameter here. The function returns the state of
  \<open>Object.prototype\<close> beside the component's state. \<open>setGraph\<close> comes first; when an
  assignment has replaced \<open>Object.keys\<close> or \<open>Object.entries\<close> by a number,
  \<open>createVisualization\<close> then throws before it writes, and the graph alone is stored.
\<close>

definition generateGraph ::
  "proto \<Rightarrow> InputMode \<Rightarrow> string \<Rightarrow> Graph \<Rightarrow> Algorithm \<Rightarrow> bool \<Rightarrow> GraphView \<Rightarrow> proto \<times> GraphView" where
  "generateGraph op inputMode inputText randomGraph algorithm isWeighted v =
     (case (case inputMode of
              AdjacencyList \<Rightarrow> parseAdjacencyListFrom op isWeighted inputText
            | AdjacencyMatrix \<Rightarrow> parseAdjacencyMatrixFrom op isWeighted inputText
            | Random \<Rightarrow> (op, Inr \<lparr>own = randomGraph, replaced = None\<rparr>)) of
        (op', Inl e) \<Rightarrow> (op', v)
      | (op', Inr graphData) \<Rightarrow>
          if ''keys'' \<in> set (objectStatics op') \<or> ''entries'' \<in> set (objectStatics op')
          then (op', v\<lparr>graph := own graphData\<rparr>)
          else
          (op', v\<lparr>graph := own graphData,
                  nodes := createNodes algorithm (startNode v) (own graphData),
                  edges := createEdges isWeighted (own graphData),
                  startNode := (if Object_keys (own graphData) \<noteq> []
                                then hd (Object_keys (own graphData))
                                else startNode v)\<rparr>))"

text \<open>A line that does not split into exactly two parts at the colon.\<close>

definition badLine :: "string \<Rightarrow> bool" where
  "badLine line = (length (split CHR '':'' (trim line)) \<noteq> 2)"

section \<open>Parser failures\<close>

lemma split_not_Nil: "split c s \<noteq> []"
  by (induction s) (auto split: list.splits)

lemma keys_objSet: "k \<in> fst ` set ob \<Longrightarrow> map fst (objSet ob k v) = map fst ob"
  by (induction ob) force+

lemma set_keys_objSet: "fst ` set (objSet ob k v) = insert k (fst ` set ob)"
  by (induction ob k v rule: objSet.induct) auto

lemma objGet_None: "(objGet ob k = None) = (k \<notin> fst ` set ob)"
  by (simp add: objGet_def map_of_eq_None_iff)

lemma objGet_Some: "objGet ob k = Some v \<Longrightarrow> k \<in> fst ` set ob"
  using objGet_None [of ob k] by auto

lemma setNeighbor_error: "snd (setNeighbor node t v st) \<noteq> Inl InvalidFormat"
  by (cases st) (simp add: setNeighbor_def split: target.splits inherited.splits)

lemma addNeighbor_error: "snd (addNeighbor w node n st) \<noteq> Inl InvalidFormat"
  by (simp add: addNeighbor_def Let_def setNeighbor_error split: option.splits prod.splits)

lemma addNeighbors_error: "snd (addNeighbors w node ns st) \<noteq> Inl InvalidFormat"
proof (induction ns arbitrary: st)
  case Nil
  show ?case by simp
next
  case (Cons n ns)
  show ?case
  proof (cases "addNeighbor w node n st")
    case (Pair op r)
    show ?thesis
    proof (cases r)
      case (Inl e)
      then show ?thesis using Pair addNeighbor_error [of w node n st] by simp
    next
      case (Inr go)
      then show ?thesis using Pair Cons.IH [of "(op, go)"] by simp
    qed
  qed
qed

lemma parseLine_bad: "badLine line \<Longrightarrow> parseLine w st line = (fst st, Inl InvalidFormat)"
  by (simp add: parseLine_def badLine_def)

lemma parseLine_format: "snd (parseLine w st line) = Inl InvalidFormat \<Longrightarrow> badLine line"
  by (auto simp: parseLine_def badLine_def Let_def addNeighbors_error split: if_splits)

lemma parseLines_bad: "list_ex badLine ls \<Longrightarrow> \<exists>e. snd (parseLines w st ls) = Inl e"
proof (induction ls arbitrary: st)
  case Nil
  then show ?case by simp
next
  case (Cons l ls)
  show ?case
  proof (cases "parseLine w st l")
    case (Pair op r)
    show ?thesis
    proof (cases r)
      case (Inl e)
      then show ?thesis using Pair by simp
    next
      case (Inr go)
      then have "\<not> badLine l" using Pair parseLine_bad [of l w st] by auto
      then have "list_ex badLine ls" using Cons.prems by simp
      then show ?thesis using Pair Inr Cons.IH [of "(op, go)"] by simp
    qed
  qed
qed

lemma parseLines_format:
  "snd (parseLines w st ls) = Inl InvalidFormat \<Longrightarrow> list_ex badLine ls"
proof (induction ls arbitrary: st)
  case Nil
  then show ?case by simp
next
  case (Cons l ls)
  show ?case
  proof (cases "parseLine w st l")
    case (Pair op r)
    show ?thesis
    proof (cases r)
      case (Inl e)
      then have "snd (parseLine w st l) = Inl InvalidFormat" using Pair Cons.prems by simp
      then show ?thesis using parseLine_format by simp
    next
      case (Inr go)
      then show ?thesis using Pair Cons.prems Cons.IH [of "(op, go)"] by simp
    qed
  qed
qed

lemma parseLines_first_bad:
  "snd (parseLines w st pre) = Inr go \<Longrightarrow> badLine l \<Longrightarrow>
   snd (parseLines w st (pre @ l # post)) = Inl InvalidFormat"
proof (induction pre arbitrary: st)
  case Nil
  then show ?case by (simp add: parseLine_bad)
next
  case (Cons p pre)
  show ?case
  proof (cases "parseLine w st p")
    case (Pair op r)
    show ?thesis
    proof (cases r)
      case (Inl e)
      then show ?thesis using Pair Cons.prems(1) by simp
    next
      case (Inr go')
      then show ?thesis using Pair Cons.prems Cons.IH [of "(op, go')"] by simp
    qed
  qed
qed

lemma rowCells_error: "snd (rowCells w labels f st j cs) \<noteq> Inl InvalidFormat"
proof (induction cs arbitrary: st j)
  case Nil
  show ?case by simp
next
  case (Cons c cs)
  show ?case
  proof (cases "\<exists>n. c = Some n \<and> 0 < n")
    case False
    then show ?thesis using Cons.IH [of st "Suc j"] by (cases c) auto
  next
    case True
    then obtain n where n: "c = Some n" "0 < n" by blast
    show ?thesis
    proof (cases "setNeighbor f (keyAt labels j) (if w then n else 1) st")
      case (Pair op r)
      show ?thesis
      proof (cases r)
        case (Inl e)
        then show ?thesis
          using Pair n setNeighbor_error [of f "keyAt labels j" "if w then n else 1" st] by simp
      next
        case (Inr go)
        then show ?thesis using Pair n Cons.IH [of "(op, go)" "Suc j"] by simp
      qed
    qed
  qed
qed

lemma matrixRows_error: "snd (matrixRows w labels st i ls) \<noteq> Inl InvalidFormat"
proof (induction ls arbitrary: st i)
  case Nil
  show ?case by simp
next
  case (Cons l ls)
  show ?case
  proof (cases "rowCells w labels (keyAt labels (i - 1)) st 0 (parseRow l)")
    case (Pair op r)
    show ?thesis
    proof (cases r)
      case (Inl e)
      then show ?thesis
        using Pair rowCells_error [of w labels "keyAt labels (i - 1)" st 0 "parseRow l"] by simp
    next
      case (Inr go)
      then show ?thesis using Pair Cons.IH [of "(op, go)" "Suc i"] by simp
    qed
  qed
qed

text \<open>
  C3, as the code has it, for every text and every state of \<open>Object.prototype\<close>. The
  adjacency-list parser fails whenever some line of the trimmed input does not split into
  two parts at the colon; its format error comes from such a line only; and the failure
  is the format error when the lines before the first such line parse. The
  adjacency-matrix parser has no format check: it never fails with the format error.
  Whenever a parser fails, \<open>generateGraph\<close> leaves the component's state as it was, and
  when it succeeds the parsed graph is stored.
\<close>

theorem parser_failure:
  "(list_ex badLine (split CHR 0x0A (trim input))
      \<longrightarrow> (\<exists>e. snd (parseAdjacencyListFrom op w input) = Inl e))
   \<and> (snd (parseAdjacencyListFrom op w input) = Inl InvalidFormat
      \<longrightarrow> list_ex badLine (split CHR 0x0A (trim input)))
   \<and> (split CHR 0x0A (trim input) = pre @ l # post \<and> badLine l
       \<and> snd (parseLines w (op, \<lparr>own = [], replaced = None\<rparr>) pre) = Inr go
      \<longrightarrow> snd (parseAdjacencyListFrom op w input) = Inl InvalidFormat)
   \<and> snd (parseAdjacencyMatrixFrom op w input) \<noteq> Inl InvalidFormat
   \<and> (case snd (parseAdjacencyListFrom op w input) of
         Inl e' \<Rightarrow> snd (generateGraph op AdjacencyList input rnd alg w v) = v
       | Inr g \<Rightarrow> graph (snd (generateGraph op AdjacencyList input rnd alg w v)) = own g)
   \<and> (case snd (parseAdjacencyMatrixFrom op w input) of
         Inl e' \<Rightarrow> snd (generateGraph op AdjacencyMatrix input rnd alg w v) = v
       | Inr g \<Rightarrow> graph (snd (generateGraph op AdjacencyMatrix input rnd alg w v)) = own g)"
proof -
  have a: "list_ex badLine (split CHR 0x0A (trim input))
      \<longrightarrow> (\<exists>e. snd (parseAdjacencyListFrom op w input) = Inl e)"
    unfolding parseAdjacencyListFrom_def using parseLines_bad by blast
  have b: "snd (parseAdjacencyListFrom op w input) = Inl InvalidFormat
      \<longrightarrow> list_ex badLine (split CHR 0x0A (trim input))"
    unfolding parseAdjacencyListFrom_def using parseLines_format by blast
  have c: "split CHR 0x0A (trim input) = pre @ l # post \<and> badLine l
       \<and> snd (parseLines w (op, \<lparr>own = [], replaced = None\<rparr>) pre) = Inr go
      \<longrightarrow> snd (parseAdjacencyListFrom op w input) = Inl InvalidFormat"
    unfolding parseAdjacencyListFrom_def using parseLines_first_bad by simp
  have d: "snd (parseAdjacencyMatrixFrom op w input) \<noteq> Inl InvalidFormat"
    unfolding parseAdjacencyMatrixFrom_def Let_def by (rule matrixRows_error)
  have gl: "case snd (parseAdjacencyListFrom op w input) of
         Inl e' \<Rightarrow> snd (generateGraph op AdjacencyList input rnd alg w v) = v
       | Inr g \<Rightarrow> graph (snd (generateGraph op AdjacencyList input rnd alg w v)) = own g"
    by (cases "parseAdjacencyListFrom op w input"; cases "snd (parseAdjacencyListFrom op w input)")
       (simp_all add: generateGraph_def)
  have gm: "case snd (parseAdjacencyMatrixFrom op w input) of
         Inl e' \<Rightarrow> snd (generateGraph op AdjacencyMatrix input rnd alg w v) = v
       | Inr g \<Rightarrow> graph (snd (generateGraph op AdjacencyMatrix input rnd alg w v)) = own g"
    by (cases "parseAdjacencyMatrixFrom op w input"; cases "snd (parseAdjacencyMatrixFrom op w input)")
       (simp_all add: generateGraph_def)
  show ?thesis using a b c d gl gm by (intro conjI)
qed

text \<open>
  The matrix \<open>A,B / 1 / 0\<close> has two header labels and rows of one column; the parser
  accepts it. The list \<open>constructor: name / X\<close> has a line without a colon, and the parser
  fails on the line before it, with a TypeError: \<open>graph['constructor']\<close> is the inherited
  function \<open>Object\<close>, whose \<open>name\<close> cannot be assigned.
\<close>

theorem matrix_column_count_counterexample:
  "length (parseRow (dataRowsOf ''A,B\<newline>1\<newline>0'' ! 0)) \<noteq> length (nodeLabelsOf ''A,B\<newline>1\<newline>0'')
   \<and> parseAdjacencyMatrix False ''A,B\<newline>1\<newline>0'' = Inr [(''A'', [(''A'', 1)]), (''B'', [])]
   \<and> badLine ''X''
   \<and> parseAdjacencyList False ''constructor: name\<newline>X'' = Inl TypeError"
  by code_simp

text \<open>The line \<open>A: B:C\<close> has two colons: the list parser rejects the text and nothing is stored.\<close>

theorem parser_failure_witness:
  "snd (parseAdjacencyListFrom pristine True ''A: B:C'') = Inl InvalidFormat
   \<and> snd (generateGraph pristine AdjacencyList ''A: B:C'' [] BFS True
        \<lparr>graph = [(''A'', [])], startNode = ''A'', nodes = [], edges = [], traversalOrder = [],
         gIsRunning = False, gIsRunningRef = False, gAnimationRef = 0\<rparr>)
      = \<lparr>graph = [(''A'', [])], startNode = ''A'', nodes = [], edges = [], traversalOrder = [],
         gIsRunning = False, gIsRunningRef = False, gAnimationRef = 0\<rparr>"
proof -
  note t = parser_failure [of "''A: B:C''" pristine True "[]" "''A: B:C''" "[]"
      "\<lparr>own = [], replaced = None\<rparr>" "[]" BFS
      "\<lparr>graph = [(''A'', [])], startNode = ''A'', nodes = [], edges = [], traversalOrder = [],
         gIsRunning = False, gIsRunningRef = False, gAnimationRef = 0\<rparr>"]
  have s: "split CHR 0x0A (trim ''A: B:C'') = [] @ ''A: B:C'' # []" by code_simp
  have b: "badLine ''A: B:C''" by code_simp
  have p: "snd (parseLines True (pristine, \<lparr>own = [], replaced = None\<rparr>) []) = Inr \<lparr>own = [], replaced = None\<rparr>"
    by simp
  have f: "snd (parseAdjacencyListFrom pristine True ''A: B:C'') = Inl InvalidFormat"
    using t [THEN conjunct2, THEN conjunct2, THEN conjunct1] s b p by blast
  note g = t [THEN conjunct2, THEN conjunct2, THEN conjunct2, THEN conjunct2, THEN conjunct1]
  show ?thesis using f g by simp
qed

section \<open>Breadth-first search\<close>

text \<open>
  Every wait of an algorithm is a point where the user may stop the run. The run flag
  \<open>isRunningRef.current\<close> is read through \<open>run\<close>: \<open>run t\<close> is the flag's value once \<open>t\<close>
  waits (\<open>await sleep()\<close>) have passed; a state counts its waits in a \<open>Ticks\<close> field.
  A run to completion is a run under \<open>\<lambda>_. True\<close>. The writes to the node and edge
  collections (\<open>setNodes\<close>, \<open>setEdges\<close>) only colour the drawing and are left out; the
  traversal order shown to the user is the \<open>order\<close> list.
\<close>

text \<open>
  \<open>bfs\<close>: \<open>enqueueNeighbors\<close> is the \<open>for ... of Object.keys(graph[current])\<close> loop,
  \<open>bfsVisit\<close> the body of the \<open>while\<close> loop after the \<open>continue\<close> test, \<open>bfsLoop\<close> the
  \<open>while\<close> loop.
\<close>

record BfsState =
  queue :: "string list"
  bfsVisited :: "string list"
  bfsOrder :: "string list"
  bfsTicks :: nat

fun enqueueNeighbors :: "string list \<Rightarrow> BfsState \<Rightarrow> BfsState" where
  "enqueueNeighbors [] s = s"
| "enqueueNeighbors (neighbor # rest) s =
     (if neighbor \<notin> set (bfsVisited s) \<and> neighbor \<notin> set (queue s)
      then enqueueNeighbors rest (s\<lparr>queue := queue s @ [neighbor], bfsTicks := Suc (bfsTicks s)\<rparr>)
      else enqueueNeighbors rest s)"

definition bfsVisit :: "Graph \<Rightarrow> string \<Rightarrow> BfsState \<Rightarrow> BfsState" where
  "bfsVisit g current s =
     (let s1 = s\<lparr>bfsVisited := bfsVisited s @ [current],
                 bfsOrder := bfsOrder s @ [current],
                 bfsTicks := Suc (bfsTicks s)\<rparr>
      in case objGet g current of
           None \<Rightarrow> s1
         | Some nb \<Rightarrow> enqueueNeighbors (Object_keys nb) s1)"




lemma enqueue_visited [simp]: "bfsVisited (enqueueNeighbors ns s) = bfsVisited s"
  by (induction ns arbitrary: s) auto

lemma enqueue_order [simp]: "bfsOrder (enqueueNeighbors ns s) = bfsOrder s"
  by (induction ns arbitrary: s) auto

lemma bfsVisit_visited [simp]: "bfsVisited (bfsVisit g c s) = bfsVisited s @ [c]"
  by (simp add: bfsVisit_def Let_def split: option.splits)

lemma bfsVisit_order [simp]: "bfsOrder (bfsVisit g c s) = bfsOrder s @ [c]"
  by (simp add: bfsVisit_def Let_def split: option.splits)




















section \<open>Dijkstra's algorithm\<close>

text \<open>
  The comparison \<open>a < b\<close> and the sum \<open>a + w\<close> of a distance and a weight. The sums of
  the source are sums of doubles, exact while they stay below \<open>2^53\<close>.
\<close>

fun numLess :: "num \<Rightarrow> num \<Rightarrow> bool" where
  "numLess (Fin a) (Fin b) = (a < b)"
| "numLess (Fin a) Infinity = True"
| "numLess Infinity b = False"

fun numAdd :: "num \<Rightarrow> int \<Rightarrow> num" where
  "numAdd (Fin a) w = Fin (a + w)"
| "numAdd Infinity w = Infinity"

text \<open>
  \<open>distances\<close> is created as \<open>{}\<close>. \<open>distances[k] = v\<close> stores an own property, except
  for the name \<open>__proto__\<close>, whose setter ignores a number. \<open>x < distances[k]\<close> for a name
  that is not an own property compares with \<open>undefined\<close>, or with the function or object
  that the fresh \<open>Object.prototype\<close> gives, and each of them converts to \<open>NaN\<close>: the
  comparison is false. The same holds of \<open>distances[k] < x\<close>.
\<close>

definition distSet :: "num jsobj \<Rightarrow> string \<Rightarrow> num \<Rightarrow> num jsobj" where
  "distSet d k v = (if k = ''__proto__'' then d else objSet d k v)"

definition lessThanDist :: "num \<Rightarrow> num jsobj \<Rightarrow> string \<Rightarrow> bool" where
  "lessThanDist a d k = (case objGet d k of Some dv \<Rightarrow> numLess a dv | None \<Rightarrow> False)"

definition distLessThan :: "num jsobj \<Rightarrow> string \<Rightarrow> num \<Rightarrow> bool" where
  "distLessThan d k a = (case objGet d k of Some dv \<Rightarrow> numLess dv a | None \<Rightarrow> False)"

text \<open>\<open>Set.add\<close> on a set kept in insertion order.\<close>

definition setAdd :: "string list \<Rightarrow> string \<Rightarrow> string list" where
  "setAdd xs a = (if a \<in> set xs then xs else xs @ [a])"

text \<open>
  The state of \<open>dijkstra\<close>: the table \<open>distances\<close>, the sets \<open>visited\<close> and \<open>unvisited\<close> in
  insertion order, the list \<open>order\<close>, and the number of sleeps that have completed.
\<close>

record DijkstraState =
  distances :: "num jsobj"
  dVisited :: "string list"
  unvisited :: "string list"
  dOrder :: "string list"
  dTicks :: nat

text \<open>
  The body of \<open>unvisited.forEach\<close>, which looks for the minimum: the pair is \<open>current\<close> and
  \<open>minDistance\<close>, at first \<open>''\<close> and \<open>Infinity\<close>.
\<close>

fun findMin :: "num jsobj \<Rightarrow> string list \<Rightarrow> string \<times> num \<Rightarrow> string \<times> num" where
  "findMin d [] acc = acc"
| "findMin d (nodeId # rest) (cur, minDistance) =
     (if distLessThan d nodeId minDistance
      then findMin d rest (nodeId, the (objGet d nodeId))
      else findMin d rest (cur, minDistance))"

text \<open>
  The loop over \<open>Object.keys(graph[current])\<close>. It does not read the run flag. A relaxation
  is followed by a sleep.
\<close>

fun relaxNeighbors :: "int jsobj \<Rightarrow> string \<Rightarrow> string list \<Rightarrow> DijkstraState \<Rightarrow> DijkstraState" where
  "relaxNeighbors nb c [] s = s"
| "relaxNeighbors nb c (neighbor # rest) s =
     (if neighbor \<notin> set (dVisited s)
      then (case (objGet (distances s) c, objGet nb neighbor) of
              (Some dc, Some w) \<Rightarrow>
                if lessThanDist (numAdd dc w) (distances s) neighbor
                then relaxNeighbors nb c rest
                       (s\<lparr>distances := distSet (distances s) neighbor (numAdd dc w),
                          dTicks := Suc (dTicks s)\<rparr>)
                else relaxNeighbors nb c rest s
            | _ \<Rightarrow> relaxNeighbors nb c rest s)
      else relaxNeighbors nb c rest s)"

text \<open>One round of the \<open>while\<close> loop after the selection of \<open>current\<close>.\<close>

definition dijkstraVisit :: "Graph \<Rightarrow> string \<Rightarrow> DijkstraState \<Rightarrow> DijkstraState" where
  "dijkstraVisit g c s =
     (let s1 = s\<lparr>unvisited := removeAll c (unvisited s),
                 dVisited := setAdd (dVisited s) c,
                 dOrder := dOrder s @ [c],
                 dTicks := Suc (dTicks s)\<rparr>
      in case objGet g c of
           None \<Rightarrow> s1
         | Some nb \<Rightarrow> relaxNeighbors nb c (Object_keys nb) s1)"

lemma findMin_fst: "fst (findMin d us (c0, m0)) = c0 \<or> fst (findMin d us (c0, m0)) \<in> set us"
  by (induction us arbitrary: c0 m0) auto

lemma relax_unvisited: "unvisited (relaxNeighbors nb c ks s) = unvisited s"
  by (induction ks arbitrary: s) (auto split: option.splits)

lemma dijkstraVisit_unvisited: "unvisited (dijkstraVisit g c s) = removeAll c (unvisited s)"
  by (simp add: dijkstraVisit_def Let_def relax_unvisited split: option.splits)

text \<open>
  The \<open>while\<close> loop. \<open>run t\<close> is the value of \<open>isRunningRef.current\<close> after \<open>t\<close> sleeps. The
  loop ends when \<open>unvisited\<close> is empty, when the flag is false, and at \<open>break\<close>, which is
  taken when \<open>current\<close> is still \<open>''\<close> or its distance is \<open>Infinity\<close>.
\<close>

function dijkstraLoop :: "(nat \<Rightarrow> bool) \<Rightarrow> Graph \<Rightarrow> DijkstraState \<Rightarrow> DijkstraState" where
  "dijkstraLoop run g s =
     (if unvisited s \<noteq> [] \<and> run (dTicks s)
      then (let current = fst (findMin (distances s) (unvisited s) ([], Infinity))
            in if current = [] \<or> objGet (distances s) current = Some Infinity then s
               else dijkstraLoop run g (dijkstraVisit g current s))
      else s)"
  by pat_completeness auto

termination dijkstraLoop
proof (relation "measure (\<lambda>(run, g, s). length (unvisited s))", goal_cases)
  case 1
  show ?case by simp
next
  case (2 run g s c)
  have "c \<in> set (unvisited s)"
    using 2 findMin_fst [of "distances s" "unvisited s" "[]" Infinity] by auto
  then have "length (removeAll c (unvisited s)) < length (unvisited s)"
    by (rule length_removeAll_less)
  then show ?case by (simp add: dijkstraVisit_unvisited)
qed

declare dijkstraLoop.simps [simp del]

definition dijkstra :: "(nat \<Rightarrow> bool) \<Rightarrow> Graph \<Rightarrow> string \<Rightarrow> DijkstraState" where
  "dijkstra run g startNodeId =
     dijkstraLoop run g
       \<lparr>distances = foldl (\<lambda>d nodeId. distSet d nodeId (if nodeId = startNodeId then Fin 0 else Infinity))
                       [] (Object_keys g),
        dVisited = [],
        unvisited = foldl setAdd [] (Object_keys g),
        dOrder = [],
        dTicks = 0\<rparr>"

text \<open>
  C5, the example. On the weighted cycle with the shortcut, read from the text of the
  adjacency-list mode, the run from \<open>A\<close> visits \<open>A\<close>, \<open>B\<close>, \<open>C\<close>, \<open>D\<close> and ends with the
  distances \<open>A:0\<close>, \<open>B:1\<close>, \<open>C:1\<close>, \<open>D:2\<close>.
\<close>

lemma dijkstra_cycle_example:
  "parseAdjacencyList True ''A: B(1), C(1)\<newline>B: C(1)\<newline>C: D(1)\<newline>D: A(1)''
     = Inr [(''A'', [(''B'', 1), (''C'', 1)]), (''B'', [(''C'', 1)]),
            (''C'', [(''D'', 1)]), (''D'', [(''A'', 1)])]
   \<and> distances (dijkstra (\<lambda>t. True)
        [(''A'', [(''B'', 1), (''C'', 1)]), (''B'', [(''C'', 1)]),
         (''C'', [(''D'', 1)]), (''D'', [(''A'', 1)])] ''A'')
     = [(''A'', Fin 0), (''B'', Fin 1), (''C'', Fin 1), (''D'', Fin 2)]
   \<and> dOrder (dijkstra (\<lambda>t. True)
        [(''A'', [(''B'', 1), (''C'', 1)]), (''B'', [(''C'', 1)]),
         (''C'', [(''D'', 1)]), (''D'', [(''A'', 1)])] ''A'')
     = [''A'', ''B'', ''C'', ''D'']"
  by code_simp

text \<open>
  C5, on a graph with the node \<open>''\<close>. The text \<open>A: ,B(5)\<close>, \<open>: B(1)\<close>, \<open>B:\<close> of the weighted
  adjacency-list mode gives the edges \<open>A\<rightarrow>''\<close> of weight 1, \<open>A\<rightarrow>B\<close> of weight 5 and
  \<open>''\<rightarrow>B\<close> of weight 1. After the visit of \<open>A\<close> the unvisited node of minimum distance is
  \<open>''\<close>, at distance 1; \<open>current === ''\<close> takes it for the case that no node was found, and
  the loop ends with \<open>''\<close> and \<open>B\<close> unvisited at the finite distances 1 and 5. The shortest
  distance of \<open>B\<close> is 2.
\<close>

theorem dijkstra_empty_node_id:
  "parseAdjacencyList True ''A: ,B(5)\<newline>: B(1)\<newline>B:''
     = Inr [(''A'', [('''', 1), (''B'', 5)]), ('''', [(''B'', 1)]), (''B'', [])]
   \<and> dijkstra (\<lambda>t. True) [(''A'', [('''', 1), (''B'', 5)]), ('''', [(''B'', 1)]), (''B'', [])] ''A''
     = \<lparr>distances = [(''A'', Fin 0), ('''', Fin 1), (''B'', Fin 5)],
        dVisited = [''A''], unvisited = ['''', ''B''], dOrder = [''A''], dTicks = 3\<rparr>"
  by code_simp

section \<open>Bellman-Ford\<close>













section \<open>The sorting engine\<close>










subsection \<open>Bubble sort\<close>








subsection \<open>Selection sort\<close>









subsection \<open>Insertion sort\<close>









subsection \<open>Merge sort\<close>


















subsection \<open>Quick sort\<close>













subsection \<open>Starting a run\<close>






section \<open>Cancelling the recursive sorts\<close>


section \<open>Frame of the stop operations\<close>

text \<open>
  C10. \<open>stopSorting\<close> clears the compared and swapped flags of every element and leaves
  every element's value and sorted flag (and the length of the array) as they were;
  \<open>stopVisualization\<close> resets visited, current and inQueue on every node, leaving id,
  position and distance alone, clears highlighted on every edge, leaving its end points
  and weight alone, and empties the traversal order. Both deactivate the run flag.
\<close>

theorem stop_frame:
  "map el_value (array (stopSorting v)) = map el_value (array v)
   \<and> map isSorted (array (stopSorting v)) = map isSorted (array v)
   \<and> map isCompared (array (stopSorting v)) = replicate (length (array v)) False
   \<and> map isSwapped (array (stopSorting v)) = replicate (length (array v)) False
   \<and> \<not> isRunningRef (stopSorting v)
   \<and> map nid (nodes (stopVisualization g)) = map nid (nodes g)
   \<and> map nx (nodes (stopVisualization g)) = map nx (nodes g)
   \<and> map ny (nodes (stopVisualization g)) = map ny (nodes g)
   \<and> map ndistance (nodes (stopVisualization g)) = map ndistance (nodes g)
   \<and> map nvisited (nodes (stopVisualization g)) = replicate (length (nodes g)) False
   \<and> map ncurrent (nodes (stopVisualization g)) = replicate (length (nodes g)) False
   \<and> map ninQueue (nodes (stopVisualization g)) = replicate (length (nodes g)) False
   \<and> map efrom (edges (stopVisualization g)) = map efrom (edges g)
   \<and> map eto (edges (stopVisualization g)) = map eto (edges g)
   \<and> map eweight (edges (stopVisualization g)) = map eweight (edges g)
   \<and> map ehighlighted (edges (stopVisualization g)) = replicate (length (edges g)) False
   \<and> traversalOrder (stopVisualization g) = []
   \<and> \<not> gIsRunningRef (stopVisualization g)"
  by (simp add: stopSorting_def stopVisualization_def o_def map_replicate_const)

end
